theory Spec2Isabelle
  imports Complex_Main "HOL-Library.Log_Nat"
begin

section \<open>The WebRTC walkie-talkie\<close>

text \<open>
  The development follows the full-duplex component \<open>WalkieTalkieApp\<close> (the first component
  of \<open>src/unnamed/part_000\<close>). Its React state hooks and refs become the fields of one record,
  every handler becomes a function on that record, and the Firestore documents become an
  explicit store. \<open>joinFrequency\<close> is given twice: as one function that runs the handler from
  its first line to its last, and cut at its \<open>await\<close>s, each a point where the program hands
  control back and other handlers run before the call resumes; \<open>togglePower\<close>, which calls
  \<open>joinFrequency()\<close> without awaiting it, starts a call of the second kind. The store and
  transport calls that are awaited are taken as resolving, apart from \<open>getUserMedia\<close> and
  \<open>updateDoc\<close>, whose rejection is a branch, as is the one rejection the code catches, in
  \<open>resetChannel\<close>. Remote playback (\<open>remoteStream\<close>, \<open>ontrack\<close>, the volume slider) is left
  out; no handler modelled here reads it.
\<close>

subsection \<open>Numbers\<close>

text \<open>
  A JavaScript Number is a double. A finite double is the rational it denotes, and \<open>fl\<close>
  rounds an exact result to the nearest double, ties to the even significand, as addition
  and the reading of a decimal literal do. \<open>binade x\<close> is the exponent \<open>e\<close> with
  \<open>2^e \<le> |x| < 2^(e+1)\<close>; doubles there are \<open>2^(e-52)\<close> apart (subnormals below
  \<open>2^-1022\<close>). Infinities and the negative zero are not modelled: the frequency is clamped
  into the FM band at every update.
\<close>

datatype number = Num rat | NaN

definition pow2 :: "int \<Rightarrow> rat" where
  "pow2 e = (if 0 \<le> e then 2 ^ nat e else 1 / 2 ^ nat (- e))"

definition binade :: "rat \<Rightarrow> int" where
  "binade x =
     (if 1 \<le> \<bar>x\<bar> then bitlen \<lfloor>\<bar>x\<bar>\<rfloor> - 1 else - bitlen (\<lceil>1 / \<bar>x\<bar>\<rceil> - 1))"

definition round_half_even :: "rat \<Rightarrow> int" where
  "round_half_even y =
     (let f = \<lfloor>y\<rfloor>; r = y - of_int f
      in if r < 1 / 2 then f else if 1 / 2 < r then f + 1 else if even f then f else f + 1)"

definition fl :: "rat \<Rightarrow> rat" where
  "fl x =
     (if x = 0 then 0
      else let q = pow2 (max (binade x) (- 1022) - 52)
           in of_int (round_half_even (x / q)) * q)"

fun js_add :: "number \<Rightarrow> number \<Rightarrow> number" where
  "js_add (Num a) (Num b) = Num (fl (a + b))"
| "js_add _ _ = NaN"

fun js_lt :: "number \<Rightarrow> number \<Rightarrow> bool" where
  "js_lt (Num a) (Num b) = (a < b)"
| "js_lt _ _ = False"

fun js_gt :: "number \<Rightarrow> number \<Rightarrow> bool" where
  "js_gt (Num a) (Num b) = (b < a)"
| "js_gt _ _ = False"

subsection \<open>Decimal strings\<close>

definition digit_char :: "nat \<Rightarrow> char" where
  "digit_char d = ''0123456789'' ! (d mod 10)"

fun show_nat :: "nat \<Rightarrow> string" where
  "show_nat n = (if n < 10 then [digit_char n] else show_nat (n div 10) @ [digit_char (n mod 10)])"

declare show_nat.simps [simp del]

text \<open>
  \<open>x.toFixed(1)\<close>: for a negative \<open>x\<close> a minus sign and the digits of \<open>-x\<close>; the digits are
  those of the integer \<open>n\<close> for which \<open>n / 10\<close> is nearest to \<open>x\<close> (the larger \<open>n\<close> when two
  are as near), with a point before the last. This is the form below \<open>10^21\<close>; beyond it
  JavaScript switches to exponent notation, which is not modelled.
\<close>

definition tenths :: "rat \<Rightarrow> nat" where
  "tenths x = nat \<lfloor>\<bar>x\<bar> * 10 + 1 / 2\<rfloor>"

fun toFixed1 :: "number \<Rightarrow> string" where
  "toFixed1 NaN = ''NaN''"
| "toFixed1 (Num x) =
     (let n = tenths x; s = show_nat (n div 10) @ ''.'' @ show_nat (n mod 10)
      in if x < 0 then ''-'' @ s else s)"

declare toFixed1.simps [simp del]

text \<open>\<open>s.replace(a, b)\<close> with a string pattern replaces the first occurrence only.\<close>

fun replace_first :: "char \<Rightarrow> char \<Rightarrow> string \<Rightarrow> string" where
  "replace_first a b [] = []"
| "replace_first a b (c # cs) = (if c = a then b # cs else c # replace_first a b cs)"

text \<open>
  The channel id, written twice in the source (in \<open>joinFrequency\<close> and in \<open>resetChannel\<close>)
  as the same template string.
\<close>

definition callId :: "number \<Rightarrow> string" where
  "callId frequency = ''freq_'' @ replace_first (CHR ''.'') (CHR ''_'') (toFixed1 frequency)"

text \<open>
  \<open>parseFloat\<close> on plain decimal literals: an optional sign, digits, and an optional point
  with digits; the longest such prefix is read, and the result is \<open>NaN\<close> when it holds no
  digit. Leading blanks, exponents and \<open>Infinity\<close> are not modelled.
\<close>

definition is_digit :: "char \<Rightarrow> bool" where
  "is_digit c = (c \<in> set ''0123456789'')"

definition digit_val :: "char \<Rightarrow> nat" where
  "digit_val c = (of_char c - 48)"

definition digits_val :: "string \<Rightarrow> nat" where
  "digits_val ds = foldl (\<lambda>a c. 10 * a + digit_val c) 0 ds"

definition parseFloat :: "string \<Rightarrow> number" where
  "parseFloat s =
     (let neg = (case s of c # _ \<Rightarrow> c = CHR ''-'' | [] \<Rightarrow> False);
          r = (case s of c # cs \<Rightarrow> if c = CHR ''-'' \<or> c = CHR ''+'' then cs else s | [] \<Rightarrow> s);
          ip = takeWhile is_digit r;
          fp = (case dropWhile is_digit r of
                  c # cs \<Rightarrow> if c = CHR ''.'' then takeWhile is_digit cs else []
                | [] \<Rightarrow> []);
          v = of_nat (digits_val ip) + of_nat (digits_val fp) / 10 ^ length fp
      in if ip = [] \<and> fp = [] then NaN else Num (fl (if neg then - v else v)))"

subsection \<open>Tuning\<close>

text \<open>
  The updater that \<open>adjustFrequency\<close> hands to \<open>setFrequency\<close>, with the literals \<open>87.5\<close>
  and \<open>108.0\<close> (both doubles) and the initial state \<open>105.50\<close>.
\<close>

definition tune :: "number \<Rightarrow> number \<Rightarrow> number" where
  "tune delta prev =
     (let newFreq = parseFloat (toFixed1 (js_add prev delta))
      in if js_lt newFreq (Num (175 / 2)) then Num (175 / 2)
         else if js_gt newFreq (Num 108) then Num 108
         else newFreq)"

subsection \<open>Media tracks and the peer connection\<close>

datatype ready_state = Live | Ended

text \<open>
  A \<open>MediaStreamTrack\<close>: the \<open>enabled\<close> flag the push-to-talk handlers write, and the
  \<open>readyState\<close> that \<open>stop()\<close> moves to \<open>ended\<close>. Stopping a track that has ended changes
  nothing, as the platform defines it.
\<close>

record track =
  enabled :: bool
  readyState :: ready_state

definition stop :: "track \<Rightarrow> track" where
  "stop t = t\<lparr>readyState := Ended\<rparr>"

record rtc_description =
  sdp :: string
  dtype :: string

type_synonym candidate = string

datatype cand_coll = OfferCandidates | AnswerCandidates

text \<open>
  An \<open>RTCPeerConnection\<close> as far as the handshake uses it: the channel and collection its
  \<open>onicecandidate\<close> handler appends to, the two descriptions, and the remote candidates it
  was given. \<open>setRemoteDescription\<close> is taken to set \<open>currentRemoteDescription\<close> at once.
  The tracks that \<open>createPeerConnection\<close> adds are the objects of \<open>localStream.current\<close>;
  they are kept there only.
\<close>

record peer_connection =
  onicecandidate :: "(string \<times> cand_coll) option"
  localDescription :: "rtc_description option"
  currentRemoteDescription :: "rtc_description option"
  remoteCandidates :: "candidate list"

definition createPeerConnection :: peer_connection where
  "createPeerConnection =
     \<lparr>onicecandidate = None, localDescription = None,
      currentRemoteDescription = None, remoteCandidates = []\<rparr>"

subsection \<open>The mailbox store\<close>

text \<open>
  The channel document as \<open>joinFrequency\<close> writes it: \<open>{offer: {sdp, type, hostId,
  timestamp}}\<close> and \<open>{answer: {type, sdp, guestId}}\<close>. The store keeps the documents of
  \<open>walkie_channels\<close>, the two candidate collections of each, and the writes it received in
  order.
\<close>

record offer_entry = rtc_description +
  hostId :: string
  timestamp :: nat

record answer_entry = rtc_description +
  guestId :: string

record channel_doc =
  offer :: "offer_entry option"
  answer :: "answer_entry option"

datatype store_write =
    SetDoc string channel_doc
  | UpdateDoc string answer_entry
  | AddDoc string cand_coll candidate
  | DeleteDoc string

record store =
  walkie_channels :: "string \<rightharpoonup> channel_doc"
  candidates :: "string \<times> cand_coll \<Rightarrow> candidate list"
  writes :: "store_write list"

definition getDoc :: "string \<Rightarrow> store \<Rightarrow> channel_doc option" where
  "getDoc cid st = walkie_channels st cid"

definition setDoc :: "string \<Rightarrow> channel_doc \<Rightarrow> store \<Rightarrow> store" where
  "setDoc cid d st =
     st\<lparr>walkie_channels := (walkie_channels st)(cid \<mapsto> d), writes := writes st @ [SetDoc cid d]\<rparr>"

text \<open>\<open>updateDoc\<close> merges the field into an existing document and is rejected when there is none.\<close>

definition updateDoc :: "string \<Rightarrow> answer_entry \<Rightarrow> store \<Rightarrow> store option" where
  "updateDoc cid a st =
     (case walkie_channels st cid of
        None \<Rightarrow> None
      | Some d \<Rightarrow>
          Some (st\<lparr>walkie_channels := (walkie_channels st)(cid \<mapsto> d\<lparr>answer := Some a\<rparr>),
                   writes := writes st @ [UpdateDoc cid a]\<rparr>))"

definition addDoc :: "string \<times> cand_coll \<Rightarrow> candidate \<Rightarrow> store \<Rightarrow> store" where
  "addDoc coll k st =
     st\<lparr>candidates := (candidates st)(coll := candidates st coll @ [k]),
        writes := writes st @ [AddDoc (fst coll) (snd coll) k]\<rparr>"

definition deleteDoc :: "string \<Rightarrow> store \<Rightarrow> store" where
  "deleteDoc cid st =
     st\<lparr>walkie_channels := (walkie_channels st)(cid := None), writes := writes st @ [DeleteDoc cid]\<rparr>"

subsection \<open>The component's state\<close>

text \<open>
  \<open>onSnapshot\<close> registers a listener and returns the function that removes it. A listener is
  kept with the number it was registered under; the handle stored in \<open>unsubscribeRef\<close> is that
  number. \<open>detached\<close> holds the tracks of every stream that \<open>setupAudio\<close> replaced in
  \<open>localStream.current\<close>: the program keeps no reference to them, the browser keeps them as
  they were.
\<close>

datatype listener = DocListener string | CandidatesListener string cand_coll

text \<open>
  A call of \<open>joinFrequency\<close> that has handed control back at one of its \<open>await\<close>s, named by
  the promise it waits for, with the locals it still needs: \<open>user.uid\<close> and \<open>frequency\<close> as
  the call's closure holds them, the \<open>callId\<close> computed from that frequency, and the session
  description a transport call returned. \<open>pending\<close> holds the calls that are suspended.
\<close>

datatype joining =
    AwaitGetUserMedia string number
  | AwaitGetDoc string string
  | AwaitCreateOffer string string
  | AwaitSetLocalOffer string string rtc_description
  | AwaitSetDoc string
  | AwaitSetRemoteDescription string string
  | AwaitCreateAnswer string string
  | AwaitSetLocalAnswer string string rtc_description
  | AwaitUpdateDoc string

record client =
  user :: "string option"
  isOn :: bool
  frequency :: number
  isTalking :: bool
  connectionStatus :: string
  pc :: "peer_connection option"
  localStream :: "track list option"
  detached :: "track list"
  unsubscribeRef :: "nat option"
  listeners :: "(nat \<times> listener) list"
  listener_seq :: nat
  pending :: "joining list"

definition initial :: client where
  "initial =
     \<lparr>user = None, isOn = False, frequency = Num (211 / 2), isTalking = False,
      connectionStatus = ''DISCONNECTED'', pc = None, localStream = None, detached = [],
      unsubscribeRef = None, listeners = [], listener_seq = 0, pending = []\<rparr>"

definition onSnapshot :: "listener \<Rightarrow> client \<Rightarrow> nat \<times> client" where
  "onSnapshot l c =
     (listener_seq c,
      c\<lparr>listeners := listeners c @ [(listener_seq c, l)], listener_seq := Suc (listener_seq c)\<rparr>)"

definition unsubscribe :: "nat \<Rightarrow> client \<Rightarrow> client" where
  "unsubscribe h c = c\<lparr>listeners := filter (\<lambda>il. fst il \<noteq> h) (listeners c)\<rparr>"

definition setConnectionStatus :: "string \<Rightarrow> client \<Rightarrow> client" where
  "setConnectionStatus s c = c\<lparr>connectionStatus := s\<rparr>"

definition setStatus :: "string \<Rightarrow> client \<Rightarrow> client" where
  "setStatus status c = setConnectionStatus status c"

subsection \<open>Teardown\<close>

text \<open>
  \<open>hangUp\<close> has no \<open>await\<close>: its four steps run before the call returns. The stream stays in
  \<open>localStream.current\<close> with its tracks stopped; the peer connection and the stored
  unsubscribe handle are cleared after use.
\<close>

definition hangUp :: "client \<Rightarrow> client" where
  "hangUp c =
     (let c1 = (case localStream c of
                  None \<Rightarrow> c
                | Some ts \<Rightarrow> c\<lparr>localStream := Some (map stop ts)\<rparr>);
          c2 = (case pc c1 of
                  None \<Rightarrow> c1
                | Some p \<Rightarrow> c1\<lparr>pc := None\<rparr>);
          c3 = (case unsubscribeRef c2 of
                  None \<Rightarrow> c2
                | Some h \<Rightarrow> (unsubscribe h c2)\<lparr>unsubscribeRef := None\<rparr>)
      in setConnectionStatus ''DISCONNECTED'' c3)"

subsection \<open>Joining\<close>

text \<open>
  What a join takes from outside the component: the result of \<open>getUserMedia\<close> (\<open>None\<close> when
  it is rejected), the session descriptions the transport generates, and the store's clock.
\<close>

record join_env =
  getUserMedia :: "track list option"
  createOffer :: string
  createAnswer :: string
  serverTimestamp :: nat

definition setupAudio :: "join_env \<Rightarrow> client \<Rightarrow> track list option \<times> client" where
  "setupAudio env c =
     (case getUserMedia env of
        None \<Rightarrow> (None, c)
      | Some ts \<Rightarrow>
          (let stream = map (\<lambda>t. t\<lparr>enabled := False\<rparr>) ts
           in (Some stream,
               c\<lparr>localStream := Some stream,
                 detached := detached c @ (case localStream c of None \<Rightarrow> [] | Some old \<Rightarrow> old)\<rparr>)))"

text \<open>
  An assignment through \<open>pc.current\<close>. Inside \<open>joinFrequency\<close> the ref holds the connection
  that \<open>createPeerConnection\<close> has just returned.
\<close>

definition with_pc :: "(peer_connection \<Rightarrow> peer_connection) \<Rightarrow> client \<Rightarrow> client" where
  "with_pc f c = c\<lparr>pc := map_option f (pc c)\<rparr>"

text \<open>The branch \<open>I AM THE CALLER (HOST)\<close>.\<close>

definition joinAsHost :: "join_env \<Rightarrow> string \<Rightarrow> string \<Rightarrow> client \<times> store \<Rightarrow> client \<times> store" where
  "joinAsHost env uid cid cs =
     (let c = fst cs; st = snd cs;
          c1 = with_pc (\<lambda>p. p\<lparr>onicecandidate := Some (cid, OfferCandidates)\<rparr>) c;
          offerDescription = \<lparr>sdp = createOffer env, dtype = ''offer''\<rparr>;
          c2 = with_pc (\<lambda>p. p\<lparr>localDescription := Some offerDescription\<rparr>) c1;
          offer = \<lparr>sdp = sdp offerDescription, dtype = dtype offerDescription,
                   hostId = uid, timestamp = serverTimestamp env\<rparr>;
          st1 = setDoc cid \<lparr>offer = Some offer, answer = None\<rparr> st;
          c3 = setStatus ''WAITING FOR PEER...'' c2;
          (h, c4) = onSnapshot (DocListener cid) c3;
          c5 = c4\<lparr>unsubscribeRef := Some h\<rparr>;
          (h', c6) = onSnapshot (CandidatesListener cid AnswerCandidates) c5
      in (c6, st1))"

text \<open>
  The branch \<open>I AM THE ANSWERER (GUEST)\<close>, with the document's \<open>offer\<close>. When \<open>updateDoc\<close>
  is rejected the handler ends there, before it subscribes.
\<close>

definition joinAsGuest ::
  "join_env \<Rightarrow> string \<Rightarrow> string \<Rightarrow> offer_entry \<Rightarrow> client \<times> store \<Rightarrow> client \<times> store" where
  "joinAsGuest env uid cid data_offer cs =
     (let c = fst cs; st = snd cs;
          c1 = setStatus ''CONNECTING...'' c;
          c2 = with_pc (\<lambda>p. p\<lparr>onicecandidate := Some (cid, AnswerCandidates)\<rparr>) c1;
          c3 = with_pc (\<lambda>p. p\<lparr>currentRemoteDescription :=
                                  Some \<lparr>sdp = sdp data_offer, dtype = dtype data_offer\<rparr>\<rparr>) c2;
          answerDescription = \<lparr>sdp = createAnswer env, dtype = ''answer''\<rparr>;
          c4 = with_pc (\<lambda>p. p\<lparr>localDescription := Some answerDescription\<rparr>) c3;
          answer = \<lparr>sdp = sdp answerDescription, dtype = dtype answerDescription, guestId = uid\<rparr>
      in case updateDoc cid answer st of
           None \<Rightarrow> (c4, st)
         | Some st1 \<Rightarrow> (snd (onSnapshot (CandidatesListener cid OfferCandidates) c4), st1))"

definition joinFrequency :: "join_env \<Rightarrow> client \<times> store \<Rightarrow> client \<times> store" where
  "joinFrequency env cs =
     (let c = fst cs; st = snd cs
      in case user c of
           None \<Rightarrow> (c, st)
         | Some uid \<Rightarrow>
             (let c1 = setStatus ''TUNING...'' c
              in case setupAudio env c1 of
                   (None, c2) \<Rightarrow> (c2, st)
                 | (Some stream, c2) \<Rightarrow>
                     (let c3 = c2\<lparr>pc := Some createPeerConnection\<rparr>;
                          cid = callId (frequency c3)
                      in case getDoc cid st of
                           None \<Rightarrow> joinAsHost env uid cid (c3, st)
                         | Some d \<Rightarrow>
                             (case offer d of
                                None \<Rightarrow> joinAsHost env uid cid (c3, st)
                              | Some data_offer \<Rightarrow> joinAsGuest env uid cid data_offer (c3, st)))))"

text \<open>
  The role a session holds, read off the candidate collection its connection writes to: the
  Host's candidates go to \<open>offerCandidates\<close>, the Guest's to \<open>answerCandidates\<close>.
\<close>

datatype role = Host | Guest

definition role_of :: "client \<Rightarrow> role option" where
  "role_of c =
     (case pc c of
        None \<Rightarrow> None
      | Some p \<Rightarrow>
          (case onicecandidate p of
             None \<Rightarrow> None
           | Some (cid, OfferCandidates) \<Rightarrow> Some Host
           | Some (cid, AnswerCandidates) \<Rightarrow> Some Guest))"

subsection \<open>Joining, cut at the awaits\<close>

text \<open>
  \<open>joinFrequency\<close> from the call to its first \<open>await\<close>: the guard on \<open>user\<close>, the status
  \<open>TUNING...\<close>, and \<open>setupAudio()\<close> up to its \<open>await getUserMedia\<close>. The call is then
  suspended.
\<close>

definition joinFrequency_call :: "client \<Rightarrow> client" where
  "joinFrequency_call c =
     (case user c of
        None \<Rightarrow> c
      | Some uid \<Rightarrow>
          (let c1 = setStatus ''TUNING...'' c
           in c1\<lparr>pending := pending c1 @ [AwaitGetUserMedia uid (frequency c1)]\<rparr>))"

text \<open>
  \<open>joinFrequency\<close> from the point where an awaited promise settles to the next \<open>await\<close>, or
  to the end of the call (\<open>None\<close>). Each of these stretches reads \<open>pc.current\<close>,
  \<open>localStream.current\<close> and the store as they are when it runs, not as the call left them. A
  stretch that dereferences \<open>pc.current\<close> after \<open>hangUp\<close> has cleared it raises a
  \<open>TypeError\<close>, which rejects the promise of the call; nothing awaits that promise, so the
  call ends there with what it has done so far. The document is read when \<open>getDoc\<close>
  resolves; a transport call acts on the connection, and a store write on the store, when it
  is issued. A call whose awaited promise is rejected (a transport call on a connection
  that has been closed since) does nothing further, as a call that is never resumed.
\<close>

fun joinFrequency_resume ::
  "join_env \<Rightarrow> joining \<Rightarrow> client \<times> store \<Rightarrow> joining option \<times> client \<times> store" where
  "joinFrequency_resume env (AwaitGetUserMedia uid f) cs =
     (case setupAudio env (fst cs) of
        (None, c2) \<Rightarrow> (None, c2, snd cs)
      | (Some stream, c2) \<Rightarrow>
          (Some (AwaitGetDoc uid (callId f)), c2\<lparr>pc := Some createPeerConnection\<rparr>, snd cs))"
| "joinFrequency_resume env (AwaitGetDoc uid cid) cs =
     (let c = fst cs; st = snd cs
      in case (case getDoc cid st of None \<Rightarrow> None | Some d \<Rightarrow> offer d) of
           None \<Rightarrow>
             (case pc c of
                None \<Rightarrow> (None, c, st)
              | Some p \<Rightarrow>
                  (Some (AwaitCreateOffer uid cid),
                   with_pc (\<lambda>p. p\<lparr>onicecandidate := Some (cid, OfferCandidates)\<rparr>) c, st))
         | Some data_offer \<Rightarrow>
             (let c1 = setStatus ''CONNECTING...'' c
              in case pc c1 of
                   None \<Rightarrow> (None, c1, st)
                 | Some p \<Rightarrow>
                     (let c2 = with_pc (\<lambda>p. p\<lparr>onicecandidate := Some (cid, AnswerCandidates)\<rparr>) c1;
                          c3 = with_pc (\<lambda>p. p\<lparr>currentRemoteDescription :=
                                  Some \<lparr>sdp = sdp data_offer, dtype = dtype data_offer\<rparr>\<rparr>) c2
                      in (Some (AwaitSetRemoteDescription uid cid), c3, st))))"
| "joinFrequency_resume env (AwaitCreateOffer uid cid) cs =
     (let c = fst cs; st = snd cs;
          offerDescription = \<lparr>sdp = createOffer env, dtype = ''offer''\<rparr>
      in case pc c of
           None \<Rightarrow> (None, c, st)
         | Some p \<Rightarrow>
             (Some (AwaitSetLocalOffer uid cid offerDescription),
              with_pc (\<lambda>p. p\<lparr>localDescription := Some offerDescription\<rparr>) c, st))"
| "joinFrequency_resume env (AwaitSetLocalOffer uid cid offerDescription) cs =
     (let c = fst cs; st = snd cs;
          offer = \<lparr>sdp = sdp offerDescription, dtype = dtype offerDescription,
                   hostId = uid, timestamp = serverTimestamp env\<rparr>
      in (Some (AwaitSetDoc cid), c, setDoc cid \<lparr>offer = Some offer, answer = None\<rparr> st))"
| "joinFrequency_resume env (AwaitSetDoc cid) cs =
     (let c = fst cs; st = snd cs;
          c3 = setStatus ''WAITING FOR PEER...'' c;
          (h, c4) = onSnapshot (DocListener cid) c3;
          c5 = c4\<lparr>unsubscribeRef := Some h\<rparr>;
          (h', c6) = onSnapshot (CandidatesListener cid AnswerCandidates) c5
      in (None, c6, st))"
| "joinFrequency_resume env (AwaitSetRemoteDescription uid cid) cs =
     (let c = fst cs; st = snd cs
      in case pc c of
           None \<Rightarrow> (None, c, st)
         | Some p \<Rightarrow> (Some (AwaitCreateAnswer uid cid), c, st))"
| "joinFrequency_resume env (AwaitCreateAnswer uid cid) cs =
     (let c = fst cs; st = snd cs;
          answerDescription = \<lparr>sdp = createAnswer env, dtype = ''answer''\<rparr>
      in case pc c of
           None \<Rightarrow> (None, c, st)
         | Some p \<Rightarrow>
             (Some (AwaitSetLocalAnswer uid cid answerDescription),
              with_pc (\<lambda>p. p\<lparr>localDescription := Some answerDescription\<rparr>) c, st))"
| "joinFrequency_resume env (AwaitSetLocalAnswer uid cid answerDescription) cs =
     (let c = fst cs; st = snd cs;
          answer = \<lparr>sdp = sdp answerDescription, dtype = dtype answerDescription, guestId = uid\<rparr>
      in case updateDoc cid answer st of
           None \<Rightarrow> (None, c, st)
         | Some st1 \<Rightarrow> (Some (AwaitUpdateDoc cid), c, st1))"
| "joinFrequency_resume env (AwaitUpdateDoc cid) cs =
     (None, snd (onSnapshot (CandidatesListener cid OfferCandidates) (fst cs)), snd cs)"

subsection \<open>The control surface\<close>

text \<open>\<open>resetChannel\<close>: \<open>deleted\<close> tells whether \<open>deleteDoc\<close> resolved; a rejection is caught and logged.\<close>

definition resetChannel :: "bool \<Rightarrow> client \<times> store \<Rightarrow> client \<times> store" where
  "resetChannel deleted cs =
     (let c = fst cs; st = snd cs; cid = callId (frequency c)
      in if deleted then (hangUp c, deleteDoc cid st) else (c, st))"

text \<open>
  \<open>togglePower\<close> calls \<open>joinFrequency()\<close> and does not await it: the handler returns when
  the call reaches its first \<open>await\<close>.
\<close>

definition togglePower :: "client \<Rightarrow> client" where
  "togglePower c =
     (if isOn c then hangUp (c\<lparr>isOn := False\<rparr>)
      else joinFrequency_call (c\<lparr>isOn := True\<rparr>))"

definition startTalk :: "client \<Rightarrow> client" where
  "startTalk c =
     (if \<not> isOn c then c
      else let c1 = c\<lparr>isTalking := True\<rparr>
           in case localStream c1 of
                None \<Rightarrow> c1
              | Some ts \<Rightarrow> c1\<lparr>localStream := Some (map (\<lambda>t. t\<lparr>enabled := True\<rparr>) ts)\<rparr>)"

definition stopTalk :: "client \<Rightarrow> client" where
  "stopTalk c =
     (if \<not> isOn c then c
      else let c1 = c\<lparr>isTalking := False\<rparr>
           in case localStream c1 of
                None \<Rightarrow> c1
              | Some ts \<Rightarrow> c1\<lparr>localStream := Some (map (\<lambda>t. t\<lparr>enabled := False\<rparr>) ts)\<rparr>)"

text \<open>\<open>adjustFrequency\<close>: \<open>confirmed\<close> is the user's answer to the \<open>confirm\<close> dialog, when it is shown.\<close>

definition adjustFrequency :: "number \<Rightarrow> bool \<Rightarrow> client \<Rightarrow> client" where
  "adjustFrequency delta confirmed c =
     (if connectionStatus c \<noteq> ''DISCONNECTED'' \<and> \<not> confirmed then c
      else let c1 = (if connectionStatus c \<noteq> ''DISCONNECTED'' then hangUp c else c)
           in c1\<lparr>frequency := tune delta (frequency c1), isOn := False\<rparr>)"

subsection \<open>Callbacks\<close>

datatype js_error = TypeError

text \<open>
  The peer connection's \<open>onconnectionstatechange\<close> handler, given the connection state it
  reads.
\<close>

definition onconnectionstatechange :: "string \<Rightarrow> client \<Rightarrow> client" where
  "onconnectionstatechange connectionState c =
     (if connectionState = ''connected'' then setConnectionStatus ''CONNECTED'' c
      else if connectionState = ''disconnected'' \<or> connectionState = ''failed''
           then hangUp (setConnectionStatus ''DISCONNECTED'' c)
      else c)"

text \<open>
  The Host's listener on the channel document. It reads \<open>pc.current\<close> first, which raises
  when \<open>hangUp\<close> has cleared it.
\<close>

definition onAnswerSnapshot :: "channel_doc option \<Rightarrow> client \<Rightarrow> js_error + client" where
  "onAnswerSnapshot data c =
     (case pc c of
        None \<Rightarrow> Inl TypeError
      | Some p \<Rightarrow>
          (case (currentRemoteDescription p, case data of None \<Rightarrow> None | Some d \<Rightarrow> answer d) of
             (None, Some a) \<Rightarrow>
               Inr (setStatus ''CONNECTING...''
                      (c\<lparr>pc := Some (p\<lparr>currentRemoteDescription :=
                                         Some \<lparr>sdp = sdp a, dtype = dtype a\<rparr>\<rparr>)\<rparr>))
           | _ \<Rightarrow> Inr c))"

text \<open>
  The listener on the other side's candidate collection, given the candidates of the
  snapshot's \<open>added\<close> changes.
\<close>

fun onCandidatesSnapshot :: "candidate list \<Rightarrow> client \<Rightarrow> js_error + client" where
  "onCandidatesSnapshot [] c = Inr c"
| "onCandidatesSnapshot (k # ks) c =
     (case pc c of
        None \<Rightarrow> Inl TypeError
      | Some p \<Rightarrow> onCandidatesSnapshot ks (c\<lparr>pc := Some (p\<lparr>remoteCandidates := remoteCandidates p @ [k]\<rparr>)\<rparr>))"

text \<open>The \<open>onicecandidate\<close> handler that the join installed, given \<open>event.candidate\<close>.\<close>

definition icecandidate :: "candidate option \<Rightarrow> client \<times> store \<Rightarrow> client \<times> store" where
  "icecandidate k cs =
     (let c = fst cs; st = snd cs
      in case pc c of
           None \<Rightarrow> (c, st)
         | Some p \<Rightarrow>
             (case (onicecandidate p, k) of
                (Some coll, Some cand) \<Rightarrow> (c, addDoc coll cand st)
              | _ \<Rightarrow> (c, st)))"

subsection \<open>Executions\<close>

text \<open>
  Everything that can happen to one component and the store it shares: the user's actions,
  a suspended call of \<open>joinFrequency\<close> resuming because the promise it awaits has settled
  (\<open>ResumeJoin i env\<close>, for the call at position \<open>i\<close> of \<open>pending\<close>, with what the outside
  returns to it), the callbacks of the listeners that are registered, the transport's events,
  the identity provider's, and the writes of other clients (a document set or deleted). A
  snapshot reaches a listener only while it is registered; a callback that raises leaves the
  state as it was. A connection state change is delivered whether or not \<open>pc.current\<close> is set, since
  the handler belongs to the connection object and not to the ref, and the push-to-talk
  events are delivered whether or not the button is enabled: both admit more executions than
  the browser does.
\<close>

datatype event =
    TogglePower
  | ResumeJoin nat join_env
  | PttDown
  | PttUp
  | AdjustFrequency number bool
  | ResetChannel bool
  | ConnectionStateChange string
  | DocSnapshot nat "channel_doc option"
  | CandidatesSnapshot nat "candidate list"
  | IceCandidate "candidate option"
  | AuthStateChanged "string option"
  | PeerWrite string "channel_doc option"

definition deliver :: "(client \<Rightarrow> js_error + client) \<Rightarrow> client \<Rightarrow> client" where
  "deliver callback c = (case callback c of Inl e \<Rightarrow> c | Inr c' \<Rightarrow> c')"

fun step :: "client \<times> store \<Rightarrow> event \<Rightarrow> client \<times> store" where
  "step cs TogglePower = (togglePower (fst cs), snd cs)"
| "step cs (ResumeJoin i env) =
     (let c = fst cs
      in if i < length (pending c)
         then (case joinFrequency_resume env (pending c ! i) cs of
                 (None, c', st') \<Rightarrow>
                   (c'\<lparr>pending := take i (pending c') @ drop (Suc i) (pending c')\<rparr>, st')
               | (Some j, c', st') \<Rightarrow> (c'\<lparr>pending := (pending c')[i := j]\<rparr>, st'))
         else cs)"
| "step cs PttDown = (startTalk (fst cs), snd cs)"
| "step cs PttUp = (stopTalk (fst cs), snd cs)"
| "step cs (AdjustFrequency delta confirmed) = (adjustFrequency delta confirmed (fst cs), snd cs)"
| "step cs (ResetChannel deleted) = resetChannel deleted cs"
| "step cs (ConnectionStateChange s) = (onconnectionstatechange s (fst cs), snd cs)"
| "step cs (DocSnapshot i data) =
     (case map_of (listeners (fst cs)) i of
        Some (DocListener cid) \<Rightarrow> (deliver (onAnswerSnapshot data) (fst cs), snd cs)
      | _ \<Rightarrow> cs)"
| "step cs (CandidatesSnapshot i added) =
     (case map_of (listeners (fst cs)) i of
        Some (CandidatesListener cid coll) \<Rightarrow> (deliver (onCandidatesSnapshot added) (fst cs), snd cs)
      | _ \<Rightarrow> cs)"
| "step cs (IceCandidate k) = icecandidate k cs"
| "step cs (AuthStateChanged u) = ((fst cs)\<lparr>user := u\<rparr>, snd cs)"
| "step cs (PeerWrite cid d) =
     (fst cs, case d of None \<Rightarrow> deleteDoc cid (snd cs) | Some doc \<Rightarrow> setDoc cid doc (snd cs))"

definition run :: "client \<times> store \<Rightarrow> event list \<Rightarrow> client \<times> store" where
  "run cs evs = foldl step cs evs"

text \<open>Whether the push-to-talk button is down after a sequence of events.\<close>

definition ptt_event :: "bool \<Rightarrow> event \<Rightarrow> bool" where
  "ptt_event held e = (case e of PttDown \<Rightarrow> True | PttUp \<Rightarrow> False | _ \<Rightarrow> held)"

definition ptt_held :: "event list \<Rightarrow> bool" where
  "ptt_held evs = foldl ptt_event False evs"

subsection \<open>Notions the properties use\<close>

text \<open>
  The tracks of the current stream; a list of tracks that have all ended; and whether any
  track the component ever obtained, in the current stream or a replaced one, is live and
  enabled, that is, whether the microphone is on the air.
\<close>

definition current_tracks :: "client \<Rightarrow> track list" where
  "current_tracks c = (case localStream c of None \<Rightarrow> [] | Some ts \<Rightarrow> ts)"

definition all_ended :: "track list \<Rightarrow> bool" where
  "all_ended ts = list_all (\<lambda>t. readyState t = Ended) ts"

definition live_audio :: "client \<Rightarrow> bool" where
  "live_audio c = list_ex (\<lambda>t. readyState t = Live \<and> enabled t) (current_tracks c @ detached c)"

text \<open>
  The tuner's grid: the doubles nearest to the one-decimal numerals from \<open>87.5\<close> to \<open>108.0\<close>.
  An execution whose frequency changes all come from the \<open>-\<close> and \<open>+\<close> buttons, which call
  \<open>adjustFrequency(-0.1)\<close> and \<open>adjustFrequency(0.1)\<close>.
\<close>

definition on_grid :: "number \<Rightarrow> bool" where
  "on_grid f \<longleftrightarrow> (\<exists>k. 875 \<le> k \<and> k \<le> 1080 \<and> f = Num (fl (of_nat k / 10)))"

definition tenth_steps :: "event list \<Rightarrow> bool" where
  "tenth_steps evs =
     list_all (\<lambda>e. case e of
                      AdjustFrequency delta confirmed \<Rightarrow>
                        delta = Num (fl (1 / 10)) \<or> delta = Num (- fl (1 / 10))
                    | _ \<Rightarrow> True) evs"

subsection \<open>Repeated notification\<close>

text \<open>
  A run of change notifications delivered to the Host's document listener, and the first
  answer such a run carries.
\<close>

definition answer_snapshots :: "client \<Rightarrow> channel_doc option list \<Rightarrow> client" where
  "answer_snapshots c ds = foldl (\<lambda>c d. deliver (onAnswerSnapshot d) c) c ds"

fun first_answer :: "channel_doc option list \<Rightarrow> answer_entry option" where
  "first_answer [] = None"
| "first_answer (d # ds) =
     (case (case d of None \<Rightarrow> None | Some doc \<Rightarrow> answer doc) of
        None \<Rightarrow> first_answer ds
      | Some a \<Rightarrow> Some a)"

subsection \<open>Sample data\<close>

text \<open>
  Two signed-in clients at the initial frequency with the power switched on (the state in
  which \<open>togglePower\<close> calls \<open>joinFrequency\<close>) and no call suspended, a microphone with one
  track, and a store with no document, for the closed statements below.
\<close>

definition mic :: join_env where
  "mic = \<lparr>getUserMedia = Some [\<lparr>enabled = True, readyState = Live\<rparr>],
          createOffer = ''v=0 host'', createAnswer = ''v=0 guest'', serverTimestamp = 1700000000\<rparr>"

definition alice :: client where
  "alice = initial\<lparr>user := Some ''alice'', isOn := True\<rparr>"

definition bob :: client where
  "bob = initial\<lparr>user := Some ''bob'', isOn := True\<rparr>"

definition empty_store :: store where
  "empty_store = \<lparr>walkie_channels = Map.empty, candidates = (\<lambda>coll. []), writes = []\<rparr>"

text \<open>Alice joins the empty channel; Bob then joins the channel she left her offer in.\<close>

definition hosting :: "client \<times> store" where
  "hosting = joinFrequency mic (alice, empty_store)"

definition answering :: "client \<times> store" where
  "answering = joinFrequency mic (bob, snd hosting)"

text \<open>
  Alice signs in and switches the power on, which calls \<open>joinFrequency\<close>; the call then runs
  through its five awaits on the Host's path with nothing in between.
\<close>

definition alice_powers_on :: "event list" where
  "alice_powers_on = [AuthStateChanged (Some ''alice''), TogglePower]"

definition alice_hosts :: "event list" where
  "alice_hosts = alice_powers_on @ replicate 5 (ResumeJoin 0 mic)"

definition bob_answer :: channel_doc where
  "bob_answer =
     \<lparr>offer = None,
      answer = Some \<lparr>sdp = ''v=0 guest'', dtype = ''answer'', guestId = ''bob''\<rparr>\<rparr>"

definition carol_answer :: channel_doc where
  "carol_answer =
     \<lparr>offer = None,
      answer = Some \<lparr>sdp = ''v=0 other'', dtype = ''answer'', guestId = ''carol''\<rparr>\<rparr>"

text \<open>
  Alice signs in, switches the power on and, while the browser still asks for the
  microphone, off again. The microphone is granted and the suspended call runs on: she
  hosts the channel with the power off, and Bob's answer arrives. She switches the power
  on, which calls \<open>joinFrequency\<close> a second time, and the transport of the first session
  connects: the push-to-talk button is enabled. She presses it; the second call's
  \<open>getUserMedia\<close> resolves; she releases it.
\<close>

definition button_enabled :: "event list" where
  "button_enabled =
     [AuthStateChanged (Some ''alice''), TogglePower, TogglePower] @
     replicate 5 (ResumeJoin 0 mic) @
     [DocSnapshot 0 (Some bob_answer), TogglePower, ConnectionStateChange ''connected'']"

definition press_and_release :: "event list" where
  "press_and_release = button_enabled @ [PttDown, ResumeJoin 0 mic, PttUp]"

section \<open>Properties\<close>

subsection \<open>Decimal strings\<close>

lemma below_ten: "(n::nat) < 10 \<Longrightarrow> n \<in> {0, 1, 2, 3, 4, 5, 6, 7, 8, 9}"
  by auto

lemma digit_char_props:
  "is_digit (digit_char d)"
  "digit_val (digit_char d) = d mod 10"
  "digit_char d \<noteq> CHR ''.''"
  "digit_char d \<noteq> CHR ''_''"
  "digit_char d \<noteq> CHR ''-''"
  "digit_char d \<noteq> CHR ''+''"
  "CHR ''-'' \<noteq> digit_char d"
  using below_ten[of "d mod 10"]
  by (auto simp: digit_char_def is_digit_def digit_val_def)

lemma not_digit: "\<not> is_digit (CHR ''.'')" "\<not> is_digit (CHR ''_'')"
  by (simp_all add: is_digit_def)

lemma show_nat_digits: "c \<in> set (show_nat n) \<Longrightarrow> is_digit c \<and> c \<noteq> CHR ''.'' \<and> c \<noteq> CHR ''_''"
proof (induction n rule: show_nat.induct)
  case (1 n)
  then show ?case
    by (subst (asm) (2) show_nat.simps) (auto simp: digit_char_props not_digit split: if_splits)
qed

lemma show_nat_nonempty: "show_nat n \<noteq> []"
  by (subst show_nat.simps) simp

lemma show_nat_hd: "\<exists>d cs. show_nat n = digit_char d # cs"
proof (induction n rule: show_nat.induct)
  case (1 n)
  show ?case
  proof (cases "n < 10")
    case True
    then show ?thesis by (subst show_nat.simps) auto
  next
    case False
    with 1 obtain d cs where "show_nat (n div 10) = digit_char d # cs" by auto
    with False show ?thesis by (subst show_nat.simps) auto
  qed
qed

lemma digits_val_snoc: "digits_val (ds @ [c]) = 10 * digits_val ds + digit_val c"
  by (simp add: digits_val_def)

lemma digits_val_show_nat: "digits_val (show_nat n) = n"
proof (induction n rule: show_nat.induct)
  case (1 n)
  show ?case
  proof (cases "n < 10")
    case True
    then show ?thesis
      by (subst show_nat.simps) (simp add: digits_val_def digit_char_props)
  next
    case False
    with 1 have "digits_val (show_nat (n div 10)) = n div 10" by simp
    with False show ?thesis
      by (subst show_nat.simps) (simp add: digits_val_snoc digit_char_props)
  qed
qed

lemma show_nat_inject: "show_nat a = show_nat b \<longleftrightarrow> a = b"
  by (metis digits_val_show_nat)

lemma show_nat_digit: "n < 10 \<Longrightarrow> show_nat n = [digit_char n]"
  by (subst show_nat.simps) simp

lemma replace_first_append:
  "a \<notin> set xs \<Longrightarrow> replace_first a b (xs @ a # ys) = xs @ b # ys"
  by (induction xs) auto

lemma replace_dot_show:
  "replace_first (CHR ''.'') (CHR ''_'') (show_nat a @ CHR ''.'' # ys) = show_nat a @ CHR ''_'' # ys"
  by (rule replace_first_append) (use show_nat_digits in blast)

lemma split_at_underscore:
  assumes "show_nat a @ CHR ''_'' # xs = show_nat b @ CHR ''_'' # ys"
  shows "a = b \<and> xs = ys"
proof -
  have "takeWhile is_digit (show_nat a @ CHR ''_'' # xs) = show_nat a"
    "takeWhile is_digit (show_nat b @ CHR ''_'' # ys) = show_nat b"
    by (simp_all add: takeWhile_append2 show_nat_digits not_digit)
  with assms have "show_nat a = show_nat b" by simp
  with assms show ?thesis by (simp add: show_nat_inject)
qed

lemma callId_Num:
  "callId (Num x) = ''freq_'' @ (if x < 0 then ''-'' else '''') @
     show_nat (tenths x div 10) @ ''_'' @ show_nat (tenths x mod 10)"
  using replace_dot_show[of "tenths x div 10" "show_nat (tenths x mod 10)"]
  by (simp add: callId_def toFixed1.simps Let_def)

lemma parseFloat_toFixed1:
  assumes "0 \<le> x"
  shows "parseFloat (toFixed1 (Num x)) = Num (fl (of_nat (tenths x) / 10))"
proof -
  let ?a = "tenths x div 10" and ?b = "tenths x mod 10"
  obtain d cs where hd: "show_nat ?a = digit_char d # cs"
    using show_nat_hd by blast
  have b: "show_nat ?b = [digit_char ?b]"
    by (simp add: show_nat_digit)
  have ip: "takeWhile is_digit (show_nat ?a @ CHR ''.'' # show_nat ?b) = show_nat ?a"
    by (simp add: takeWhile_append2 show_nat_digits not_digit)
  have dp: "dropWhile is_digit (show_nat ?a @ CHR ''.'' # show_nat ?b) = CHR ''.'' # show_nat ?b"
    by (simp add: dropWhile_append2 show_nat_digits not_digit)
  have fp: "takeWhile is_digit (show_nat ?b) = show_nat ?b"
    by (simp add: b digit_char_props)
  have v: "(of_nat ?a :: rat) + of_nat ?b / 10 = of_nat (tenths x) / 10"
  proof -
    have "(of_nat (?a * 10 + ?b) :: rat) = of_nat ?a * 10 + of_nat ?b"
      by (simp only: of_nat_add of_nat_mult of_nat_numeral)
    moreover have "?a * 10 + ?b = tenths x"
      by simp
    ultimately have "(of_nat (tenths x) :: rat) = of_nat ?a * 10 + of_nat ?b"
      by metis
    then show ?thesis
      by simp
  qed
  have s: "toFixed1 (Num x) = digit_char d # cs @ CHR ''.'' # show_nat ?b"
    using assms hd by (simp add: toFixed1.simps Let_def)
  have ne: "digit_char d # cs \<noteq> []" by simp
  have p: "parseFloat (toFixed1 (Num x)) = Num (fl (of_nat ?a + of_nat ?b / 10))"
    unfolding parseFloat_def s
    using ip dp fp hd
    by (simp add: Let_def digit_char_props digits_val_show_nat[of ?a, unfolded hd] b
        digits_val_show_nat[of ?b, unfolded b])
  show ?thesis
    by (simp only: p v)
qed

text \<open>
  C8. The channel id is a function of the frequency alone, and for all frequencies it
  separates exactly the quantized values: two frequencies get the same id if and only if
  they have the same sign and the same number of tenths after rounding to one decimal.
  In particular valid frequencies that differ after quantization get different ids.
\<close>

theorem callId_injective:
  "callId (Num x) = callId (Num y) \<longleftrightarrow> (x < 0 \<longleftrightarrow> y < 0) \<and> tenths x = tenths y"
proof
  assume eq: "callId (Num x) = callId (Num y)"
  obtain d cs where hx: "show_nat (tenths x div 10) = digit_char d # cs"
    using show_nat_hd by blast
  obtain d' cs' where hy: "show_nat (tenths y div 10) = digit_char d' # cs'"
    using show_nat_hd by blast
  from eq hx hy have sign: "x < 0 \<longleftrightarrow> y < 0"
    by (auto simp: callId_Num digit_char_props split: if_splits)
  with eq have "show_nat (tenths x div 10) @ CHR ''_'' # show_nat (tenths x mod 10) =
      show_nat (tenths y div 10) @ CHR ''_'' # show_nat (tenths y mod 10)"
    by (auto simp: callId_Num split: if_splits)
  from split_at_underscore[OF this]
  have "tenths x div 10 = tenths y div 10" "tenths x mod 10 = tenths y mod 10"
    by (simp_all add: show_nat_inject)
  then have "tenths x = tenths y"
    by (metis div_mult_mod_eq)
  with sign show "(x < 0 \<longleftrightarrow> y < 0) \<and> tenths x = tenths y" by simp
next
  assume "(x < 0 \<longleftrightarrow> y < 0) \<and> tenths x = tenths y"
  then show "callId (Num x) = callId (Num y)"
    by (auto simp: callId_Num)
qed


theorem callId_injective_witness:
  "callId (Num (211 / 2)) \<noteq> callId (Num (3715469692580659 / 35184372088832)) \<and>
   callId (Num (211 / 2)) = callId (Num (5277 / 50))"
proof -
  have t: "tenths (211 / 2) = 1055" "tenths (3715469692580659 / 35184372088832) = 1056"
    "tenths (5277 / 50) = 1055"
    by code_simp+
  show ?thesis
    using callId_injective[of "211 / 2" "3715469692580659 / 35184372088832"]
      callId_injective[of "211 / 2" "5277 / 50"]
    by (simp add: t)
qed

subsection \<open>Rounding to the nearest double\<close>

lemma bitlen_7: "64 \<le> n \<Longrightarrow> n < 128 \<Longrightarrow> bitlen n = 7"
  using bitlen_le_iff_power[of n 7] bitlen_ge_iff_power[of 7 n]
  by simp

lemma binade_band:
  assumes "64 \<le> x" and "x < 128"
  shows "binade x = 6"
proof -
  have "64 \<le> \<lfloor>x\<rfloor>" "\<lfloor>x\<rfloor> < 128"
    using assms by (simp_all add: le_floor_iff floor_less_iff)
  then have "bitlen \<lfloor>x\<rfloor> = 7" by (rule bitlen_7)
  moreover have "\<bar>x\<bar> = x" "1 \<le> x" using assms by simp_all
  ultimately show ?thesis by (simp add: binade_def)
qed

lemma round_half_even_error: "\<bar>of_int (round_half_even y) - y\<bar> \<le> 1 / 2"
proof -
  have "of_int \<lfloor>y\<rfloor> \<le> y" "y < of_int \<lfloor>y\<rfloor> + 1"
    by linarith+
  then show ?thesis
    by (auto simp: round_half_even_def Let_def)
qed

lemma fl_band:
  assumes "64 \<le> x" and "x < 128"
  shows "fl x = of_int (round_half_even (x * 2 ^ 46)) / 2 ^ 46"
  using assms by (simp add: fl_def binade_band pow2_def Let_def)

lemma fl_error:
  assumes "64 \<le> x" and "x < 128"
  shows "\<bar>fl x - x\<bar> \<le> 1 / 2 ^ 47"
proof -
  define z :: rat where "z = of_int (round_half_even (x * 2 ^ 46))"
  have "\<bar>z - x * 2 ^ 46\<bar> \<le> 1 / 2"
    unfolding z_def by (rule round_half_even_error)
  then have "- (1 / 2) \<le> z - x * 2 ^ 46" "z - x * 2 ^ 46 \<le> 1 / 2"
    unfolding abs_le_iff by linarith+
  then have "- (1 / 2 ^ 47) \<le> z / 2 ^ 46 - x" "z / 2 ^ 46 - x \<le> 1 / 2 ^ 47"
    by simp_all
  then have "\<bar>z / 2 ^ 46 - x\<bar> \<le> 1 / 2 ^ 47"
    unfolding abs_le_iff by linarith
  then show ?thesis
    using assms by (simp add: fl_band z_def)
qed

lemma fl_tenth: "fl (1 / 10) = 3602879701896397 / 36028797018963968"
  by code_simp

lemma fl_exact: "fl (175 / 2) = 175 / 2" "fl 108 = 108" "fl (211 / 2) = 211 / 2"
  by code_simp+

lemma tenths_near:
  assumes "0 \<le> y" and "\<bar>y - of_nat k / 10\<bar> < 1 / 20"
  shows "tenths y = k"
proof -
  have "of_int (int k) \<le> y * 10 + 1 / 2" "y * 10 + 1 / 2 < of_int (int k) + 1"
    using assms(2) unfolding abs_less_iff by simp_all
  then have "\<lfloor>y * 10 + 1 / 2\<rfloor> = int k"
    by (rule floor_unique)
  with assms show ?thesis by (simp add: tenths_def)
qed

subsection \<open>Tuning stays on the grid\<close>

lemma abs_boundsD: "\<bar>x - y\<bar> \<le> e \<Longrightarrow> y - e \<le> x \<and> x \<le> y + (e::rat)"
  by linarith

lemma fl_tenth_error: "\<bar>fl (1 / 10) - 1 / 10\<bar> \<le> 1 / 2 ^ 57"
  by (simp add: fl_tenth)

lemma grid_error:
  assumes "874 \<le> n" and "n \<le> 1081"
  shows "\<bar>fl (of_nat n / 10) - of_nat n / 10\<bar> \<le> 1 / 2 ^ 47"
proof -
  have "(874::rat) \<le> of_nat n" "of_nat n \<le> (1081::rat)"
    using assms by simp_all
  then show ?thesis
    by (intro fl_error) simp_all
qed

lemma tune_grid:
  assumes k: "875 \<le> k" "k \<le> 1080"
    and n: "n = k + 1 \<or> n + 1 = k"
    and d: "\<bar>d - (of_nat n / 10 - of_nat k / 10)\<bar> \<le> 1 / 2 ^ 57"
  shows "tune (Num d) (Num (fl (of_nat k / 10))) =
           Num (fl (of_nat (if n < 875 then 875 else if 1080 < n then 1080 else n) / 10))"
proof -
  let ?a = "fl (of_nat k / 10)"
  let ?s = "fl (?a + d)"
  have kr: "(875::rat) \<le> of_nat k" "of_nat k \<le> (1080::rat)"
    using k by simp_all
  have nr: "(874::rat) \<le> of_nat n" "of_nat n \<le> (1081::rat)" and nb: "874 \<le> n" "n \<le> 1081"
    using k n by auto
  have a: "of_nat k / 10 - 1 / 2 ^ 47 \<le> ?a \<and> ?a \<le> of_nat k / 10 + 1 / 2 ^ 47"
    using k by (intro abs_boundsD grid_error) simp_all
  have d': "(of_nat n / 10 - of_nat k / 10) - 1 / 2 ^ 57 \<le> d \<and>
      d \<le> (of_nat n / 10 - of_nat k / 10) + 1 / 2 ^ 57"
    using d by (rule abs_boundsD)
  have sum: "- (1 / 2 ^ 47 + 1 / 2 ^ 57) \<le> (?a + d) - of_nat n / 10"
      "(?a + d) - of_nat n / 10 \<le> 1 / 2 ^ 47 + 1 / 2 ^ 57"
    using a d' by linarith+
  have "64 \<le> ?a + d" "?a + d < 128"
    using sum nr by simp_all
  then have "\<bar>?s - (?a + d)\<bar> \<le> 1 / 2 ^ 47"
    by (rule fl_error)
  then have s: "- (1 / 2 ^ 47) \<le> ?s - (?a + d)" "?s - (?a + d) \<le> 1 / 2 ^ 47"
    unfolding abs_le_iff by linarith+
  have s0: "0 \<le> ?s"
    using s sum nr by simp
  have "\<bar>?s - of_nat n / 10\<bar> < 1 / 20"
    unfolding abs_less_iff using s sum by simp
  with s0 have t: "tenths ?s = n"
    by (rule tenths_near)
  have p: "parseFloat (toFixed1 (Num ?s)) = Num (fl (of_nat n / 10))"
    using parseFloat_toFixed1[OF s0] t by simp
  have b: "\<bar>fl (of_nat n / 10) - of_nat n / 10\<bar> \<le> 1 / 2 ^ 47"
    using nb by (rule grid_error)
  then have b': "- (1 / 2 ^ 47) \<le> fl (of_nat n / 10) - of_nat n / 10"
      "fl (of_nat n / 10) - of_nat n / 10 \<le> 1 / 2 ^ 47"
    unfolding abs_le_iff by linarith+
  consider "n = 874" | "n = 875" | "876 \<le> n" "n \<le> 1079" | "n = 1080" | "n = 1081"
    using nb by linarith
  then show ?thesis
  proof cases
    case 1
    with b' have "fl (of_nat n / 10) < 175 / 2" by simp
    with 1 p show ?thesis
      by (simp add: tune_def Let_def fl_exact)
  next
    case 2
    with p show ?thesis
      by (simp add: tune_def Let_def fl_exact)
  next
    case 3
    then have "(876::rat) \<le> of_nat n" "of_nat n \<le> (1079::rat)" by simp_all
    with b' have "175 / 2 \<le> fl (of_nat n / 10)" "fl (of_nat n / 10) \<le> 108" by simp_all
    with 3 p show ?thesis
      by (simp add: tune_def Let_def)
  next
    case 4
    with p show ?thesis
      by (simp add: tune_def Let_def fl_exact)
  next
    case 5
    with b' have "108 < fl (of_nat n / 10)" by simp
    with 5 p show ?thesis
      by (simp add: tune_def Let_def fl_exact)
  qed
qed

lemma hangUp_frequency: "frequency (hangUp c) = frequency c"
  by (simp add: hangUp_def unsubscribe_def setConnectionStatus_def Let_def split: option.splits)

lemma onCandidatesSnapshot_frequency:
  "onCandidatesSnapshot ks c = Inr c' \<Longrightarrow> frequency c' = frequency c"
  by (induction ks arbitrary: c) (auto split: option.splits)

lemma deliver_frequency:
  "frequency (deliver (onCandidatesSnapshot ks) c) = frequency c"
  "frequency (deliver (onAnswerSnapshot d) c) = frequency c"
  using onCandidatesSnapshot_frequency[of ks c]
  by (auto simp: deliver_def onAnswerSnapshot_def setStatus_def setConnectionStatus_def
      split: sum.splits option.splits)

lemma joinFrequency_call_frequency: "frequency (joinFrequency_call c) = frequency c"
  by (simp add: joinFrequency_call_def setStatus_def setConnectionStatus_def Let_def
      split: option.splits)

lemma joinFrequency_resume_frequency:
  "frequency (fst (snd (joinFrequency_resume env j cs))) = frequency (fst cs)"
  by (cases j)
    (auto simp: setupAudio_def with_pc_def setStatus_def setConnectionStatus_def onSnapshot_def
      Let_def split: option.splits prod.splits)

lemma step_frequency:
  "frequency (fst (step cs e)) = frequency (fst cs) \<or>
   (\<exists>delta confirmed. e = AdjustFrequency delta confirmed \<and>
      frequency (fst (step cs e)) = tune delta (frequency (fst cs)))"
proof (cases e)
  case TogglePower
  then show ?thesis
    by (simp add: togglePower_def hangUp_frequency joinFrequency_call_frequency)
next
  case (ResumeJoin i env)
  then show ?thesis
    using joinFrequency_resume_frequency[of env "pending (fst cs) ! i" cs]
    by (auto simp: Let_def split: prod.splits option.splits)
next
  case (AdjustFrequency delta confirmed)
  then show ?thesis
    by (simp add: adjustFrequency_def Let_def hangUp_frequency)
next
  case (ResetChannel deleted)
  then show ?thesis
    by (simp add: resetChannel_def Let_def hangUp_frequency)
next
  case (ConnectionStateChange s)
  then show ?thesis
    by (simp add: onconnectionstatechange_def hangUp_frequency setConnectionStatus_def)
next
  case (DocSnapshot i d)
  then show ?thesis
    by (simp add: deliver_frequency split: option.splits listener.splits)
next
  case (CandidatesSnapshot i ks)
  then show ?thesis
    by (simp add: deliver_frequency split: option.splits listener.splits)
next
  case (IceCandidate k)
  then show ?thesis
    by (simp add: icecandidate_def Let_def split: option.splits prod.splits)
qed (simp_all add: startTalk_def stopTalk_def Let_def split: option.splits)

lemma on_grid_up: "on_grid f \<Longrightarrow> on_grid (tune (Num (fl (1 / 10))) f)"
proof -
  assume "on_grid f"
  then obtain k where k: "875 \<le> k" "k \<le> 1080" "f = Num (fl (of_nat k / 10))"
    by (auto simp: on_grid_def)
  define n where "n = k + 1"
  define k' where "k' = (if n < 875 then 875 else if 1080 < n then 1080 else n)"
  have "of_nat n / 10 - of_nat k / 10 = (1 / 10 :: rat)"
    by (simp add: n_def add_divide_distrib)
  with fl_tenth_error have "\<bar>fl (1 / 10) - (of_nat n / 10 - of_nat k / 10)\<bar> \<le> 1 / 2 ^ 57"
    by (simp only:)
  from tune_grid[OF k(1,2) _ this] k(3)
  have "tune (Num (fl (1 / 10))) f = Num (fl (of_nat k' / 10))"
    by (simp add: n_def k'_def)
  moreover have "875 \<le> k' \<and> k' \<le> 1080"
    using k by (simp add: k'_def n_def)
  ultimately show ?thesis
    unfolding on_grid_def by blast
qed

lemma on_grid_down: "on_grid f \<Longrightarrow> on_grid (tune (Num (- fl (1 / 10))) f)"
proof -
  assume "on_grid f"
  then obtain k where k: "875 \<le> k" "k \<le> 1080" "f = Num (fl (of_nat k / 10))"
    by (auto simp: on_grid_def)
  define n where "n = k - 1"
  define k' where "k' = (if n < 875 then 875 else if 1080 < n then 1080 else n)"
  have nk: "n + 1 = k"
    using k(1) by (simp add: n_def)
  have "(of_nat (n + 1) :: rat) = of_nat n + 1"
    by simp
  with nk have "(of_nat k :: rat) = of_nat n + 1"
    by (simp only:)
  then have "of_nat n / 10 - of_nat k / 10 = (- (1 / 10) :: rat)"
    by (simp add: add_divide_distrib)
  then have "- fl (1 / 10) - (of_nat n / 10 - of_nat k / 10) = - (fl (1 / 10) - 1 / 10)"
    by (simp only:)
  with fl_tenth_error have "\<bar>- fl (1 / 10) - (of_nat n / 10 - of_nat k / 10)\<bar> \<le> 1 / 2 ^ 57"
    by (simp only: abs_minus_cancel)
  from tune_grid[OF k(1,2) _ this] k(3) nk
  have "tune (Num (- fl (1 / 10))) f = Num (fl (of_nat k' / 10))"
    by (simp add: k'_def)
  moreover have "875 \<le> k' \<and> k' \<le> 1080"
    using k by (simp add: k'_def n_def)
  ultimately show ?thesis
    unfolding on_grid_def by blast
qed

lemma on_grid_run:
  "on_grid (frequency (fst cs)) \<Longrightarrow> tenth_steps evs \<Longrightarrow>
   on_grid (frequency (fst (foldl step cs evs)))"
proof (induction evs arbitrary: cs)
  case Nil
  then show ?case by simp
next
  case (Cons e evs)
  from Cons.prems(2) have rest: "tenth_steps evs"
    by (simp add: tenth_steps_def)
  have "on_grid (frequency (fst (step cs e)))"
    using step_frequency[of cs e] Cons.prems
    by (auto simp: tenth_steps_def on_grid_up on_grid_down)
  from Cons.IH[OF this rest] show ?case by simp
qed

lemma on_grid_band:
  assumes "on_grid f"
  shows "\<exists>x. f = Num x \<and> 175 / 2 \<le> x \<and> x \<le> 108 \<and> parseFloat (toFixed1 (Num x)) = Num x"
proof -
  from assms obtain k where k: "875 \<le> k" "k \<le> 1080" "f = Num (fl (of_nat k / 10))"
    by (auto simp: on_grid_def)
  let ?x = "fl (of_nat k / 10)"
  have kr: "(875::rat) \<le> of_nat k" "of_nat k \<le> (1080::rat)"
    using k by simp_all
  have e: "of_nat k / 10 - 1 / 2 ^ 47 \<le> ?x \<and> ?x \<le> of_nat k / 10 + 1 / 2 ^ 47"
    using k by (intro abs_boundsD grid_error) simp_all
  have x0: "0 \<le> ?x" using e kr by simp
  have "\<bar>?x - of_nat k / 10\<bar> < 1 / 20"
    unfolding abs_less_iff using e by simp
  with x0 have "tenths ?x = k" by (rule tenths_near)
  with parseFloat_toFixed1[OF x0] have q: "parseFloat (toFixed1 (Num ?x)) = Num ?x"
    by simp
  have lo: "175 / 2 \<le> ?x"
  proof (cases "k = 875")
    case True
    then show ?thesis by (simp add: fl_exact)
  next
    case False
    with k have "(876::rat) \<le> of_nat k" by simp
    with e show ?thesis by simp
  qed
  have hi: "?x \<le> 108"
  proof (cases "k = 1080")
    case True
    then show ?thesis by (simp add: fl_exact)
  next
    case False
    with k have "of_nat k \<le> (1079::rat)" by simp
    with e show ?thesis by simp
  qed
  from k q lo hi show ?thesis by simp
qed

lemma on_grid_initial: "on_grid (Num (211 / 2))"
proof -
  have "fl (of_nat 1055 / 10) = 211 / 2"
    by (simp add: fl_exact)
  then show ?thesis
    unfolding on_grid_def by (intro exI[of _ 1055]) simp
qed

lemma tune_clamps:
  "tune (Num (- fl (1 / 10))) (Num (175 / 2)) = Num (175 / 2)"
  "tune (Num (fl (1 / 10))) (Num 108) = Num 108"
  by code_simp+

lemma tune_example:
  "tune (Num (fl (1 / 10))) (Num (211 / 2)) = Num (3715469692580659 / 35184372088832)"
  by code_simp


text \<open>
  C9. In every execution from the initial state in which each \<open>adjustFrequency\<close> call has
  the delta \<open>0.1\<close> or \<open>-0.1\<close>, the frequency is a number between \<open>87.5\<close> and \<open>108.0\<close>
  inclusive that formatting to one decimal and reading back leaves unchanged, with the
  additions and the decimal conversions rounded as doubles are. A step down at \<open>87.5\<close>
  stays at \<open>87.5\<close> and a step up at \<open>108.0\<close> stays at \<open>108.0\<close>.
\<close>

theorem frequency_stays_in_band:
  assumes "tenth_steps evs"
  shows "(\<exists>x. frequency (fst (run (initial, st) evs)) = Num x \<and> 175 / 2 \<le> x \<and> x \<le> 108 \<and>
              parseFloat (toFixed1 (Num x)) = Num x) \<and>
         tune (Num (- fl (1 / 10))) (Num (175 / 2)) = Num (175 / 2) \<and>
         tune (Num (fl (1 / 10))) (Num 108) = Num 108"
proof -
  have "on_grid (frequency (fst (initial, st)))"
    by (simp add: initial_def on_grid_initial)
  from on_grid_run[OF this assms]
  have "on_grid (frequency (fst (run (initial, st) evs)))"
    by (simp add: run_def)
  then show ?thesis
    by (intro conjI on_grid_band tune_clamps)
qed

theorem frequency_stays_in_band_witness:
  "frequency (fst (run (initial, empty_store) [AdjustFrequency (Num (fl (1 / 10))) True])) =
     Num (3715469692580659 / 35184372088832) \<and>
   (\<exists>x. frequency (fst (run (initial, empty_store) [AdjustFrequency (Num (fl (1 / 10))) True])) =
           Num x \<and>
         175 / 2 \<le> x \<and> x \<le> 108 \<and> parseFloat (toFixed1 (Num x)) = Num x)"
proof -
  have steps: "tenth_steps [AdjustFrequency (Num (fl (1 / 10))) True]"
    by (simp add: tenth_steps_def)
  have f: "frequency (fst (run (initial, empty_store) [AdjustFrequency (Num (fl (1 / 10))) True])) =
     Num (3715469692580659 / 35184372088832)"
    by (simp add: run_def adjustFrequency_def initial_def tune_example)
  show ?thesis
    by (intro conjI f conjunct1[OF frequency_stays_in_band[OF steps]])
qed

subsection \<open>Evaluating the sample sessions\<close>

lemma callId_initial: "callId (Num (211 / 2)) = ''freq_105_5''"
  by code_simp

lemmas join_defs = joinFrequency_def joinAsHost_def joinAsGuest_def setupAudio_def with_pc_def
  setStatus_def setConnectionStatus_def onSnapshot_def getDoc_def setDoc_def updateDoc_def
  role_of_def createPeerConnection_def Let_def

lemmas sample_defs = alice_def bob_def initial_def mic_def empty_store_def

lemma sample_fields:
  "user alice = Some ''alice''"
  "user bob = Some ''bob''"
  "getUserMedia mic = Some [\<lparr>enabled = True, readyState = Live\<rparr>]"
  "createOffer mic = ''v=0 host''"
  "createAnswer mic = ''v=0 guest''"
  "serverTimestamp mic = 1700000000"
  "callId (frequency alice) = ''freq_105_5''"
  "callId (frequency bob) = ''freq_105_5''"
  by (simp_all add: sample_defs callId_initial)

lemma hosting_eq:
  "hosting =
     (\<lparr>user = Some ''alice'', isOn = True, frequency = Num (211 / 2), isTalking = False,
       connectionStatus = ''WAITING FOR PEER...'',
       pc = Some \<lparr>onicecandidate = Some (''freq_105_5'', OfferCandidates),
                   localDescription = Some \<lparr>sdp = ''v=0 host'', dtype = ''offer''\<rparr>,
                   currentRemoteDescription = None, remoteCandidates = []\<rparr>,
       localStream = Some [\<lparr>enabled = False, readyState = Live\<rparr>], detached = [],
       unsubscribeRef = Some 0,
       listeners = [(0, DocListener ''freq_105_5''),
                    (1, CandidatesListener ''freq_105_5'' AnswerCandidates)],
       listener_seq = 2, pending = []\<rparr>,
      \<lparr>walkie_channels =
         [''freq_105_5'' \<mapsto>
            \<lparr>offer = Some \<lparr>sdp = ''v=0 host'', dtype = ''offer'', hostId = ''alice'',
                            timestamp = 1700000000\<rparr>, answer = None\<rparr>],
       candidates = (\<lambda>coll. []),
       writes = [SetDoc ''freq_105_5''
            \<lparr>offer = Some \<lparr>sdp = ''v=0 host'', dtype = ''offer'', hostId = ''alice'',
                            timestamp = 1700000000\<rparr>, answer = None\<rparr>]\<rparr>)"
  by (simp add: hosting_def join_defs sample_defs callId_initial)

lemma answering_eq:
  "answering =
     (\<lparr>user = Some ''bob'', isOn = True, frequency = Num (211 / 2), isTalking = False,
       connectionStatus = ''CONNECTING...'',
       pc = Some \<lparr>onicecandidate = Some (''freq_105_5'', AnswerCandidates),
                   localDescription = Some \<lparr>sdp = ''v=0 guest'', dtype = ''answer''\<rparr>,
                   currentRemoteDescription = Some \<lparr>sdp = ''v=0 host'', dtype = ''offer''\<rparr>,
                   remoteCandidates = []\<rparr>,
       localStream = Some [\<lparr>enabled = False, readyState = Live\<rparr>], detached = [],
       unsubscribeRef = None,
       listeners = [(0, CandidatesListener ''freq_105_5'' OfferCandidates)],
       listener_seq = 1, pending = []\<rparr>,
      \<lparr>walkie_channels =
         [''freq_105_5'' \<mapsto>
            \<lparr>offer = Some \<lparr>sdp = ''v=0 host'', dtype = ''offer'', hostId = ''alice'',
                            timestamp = 1700000000\<rparr>,
             answer = Some \<lparr>sdp = ''v=0 guest'', dtype = ''answer'', guestId = ''bob''\<rparr>\<rparr>],
       candidates = (\<lambda>coll. []),
       writes = [SetDoc ''freq_105_5''
            \<lparr>offer = Some \<lparr>sdp = ''v=0 host'', dtype = ''offer'', hostId = ''alice'',
                            timestamp = 1700000000\<rparr>, answer = None\<rparr>,
          UpdateDoc ''freq_105_5''
            \<lparr>sdp = ''v=0 guest'', dtype = ''answer'', guestId = ''bob''\<rparr>]\<rparr>)"
  unfolding answering_def hosting_eq
  by (simp add: join_defs sample_defs callId_initial)

lemmas hangUp_defs = hangUp_def unsubscribe_def setConnectionStatus_def Let_def

lemma run_append: "run cs (evs @ evs') = run (run cs evs) evs'"
  by (simp add: run_def)

lemma replicate_5: "replicate 5 x = [x, x, x, x, x]"
  by (simp add: eval_nat_numeral)

subsection \<open>A call that nothing interrupts\<close>

text \<open>
  The stretches of \<open>joinFrequency\<close> between its awaits, run one after the other from a state
  with no other call suspended, give what \<open>joinFrequency\<close> gives as one function: the Host's
  path has five awaits, the Guest's six.
\<close>

lemma joinFrequency_resumed:
  "run (joinFrequency_call (c\<lparr>pending := []\<rparr>), st) (replicate 6 (ResumeJoin 0 env)) =
     joinFrequency env (c\<lparr>pending := []\<rparr>, st)"
proof (cases "user c")
  case None
  then show ?thesis
    by (simp add: run_def eval_nat_numeral joinFrequency_call_def joinFrequency_def)
next
  case uid: (Some uid)
  show ?thesis
  proof (cases "getUserMedia env")
    case None
    with uid show ?thesis
      by (simp add: run_def eval_nat_numeral joinFrequency_call_def join_defs)
  next
    case media: (Some ts)
    show ?thesis
    proof (cases "walkie_channels st (callId (frequency c))")
      case None
      with uid media show ?thesis
        by (simp add: run_def eval_nat_numeral joinFrequency_call_def join_defs)
    next
      case doc: (Some d)
      show ?thesis
      proof (cases "offer d")
        case None
        with uid media doc show ?thesis
          by (simp add: run_def eval_nat_numeral joinFrequency_call_def join_defs)
      next
        case (Some data_offer)
        with uid media doc show ?thesis
          by (simp add: run_def eval_nat_numeral joinFrequency_call_def join_defs)
      qed
    qed
  qed
qed

subsection \<open>What a join changes\<close>

lemma joinFrequency_frame:
  "user (fst (joinFrequency env cs)) = user (fst cs)"
  "frequency (fst (joinFrequency env cs)) = frequency (fst cs)"
  "isOn (fst (joinFrequency env cs)) = isOn (fst cs)"
  "isTalking (fst (joinFrequency env cs)) = isTalking (fst cs)"
  by (auto simp: join_defs split: option.splits prod.splits)

lemma joinFrequency_leaves_offer:
  assumes "user c = Some uid" and "getUserMedia env = Some ts"
  shows "\<exists>d data_offer. getDoc (callId (frequency c)) (snd (joinFrequency env (c, st))) = Some d \<and>
           offer d = Some data_offer"
  using assms by (auto simp: join_defs split: option.splits prod.splits)

lemma joinFrequency_mutes:
  "user c = Some uid \<Longrightarrow> getUserMedia env = Some ts \<Longrightarrow>
   localStream (fst (joinFrequency env (c, st))) = Some (map (\<lambda>t. t\<lparr>enabled := False\<rparr>) ts)"
  by (auto simp: join_defs split: option.splits prod.splits)

lemma join_role_cases:
  assumes "user c = Some uid" and "getUserMedia env = Some ts"
  shows "case (case getDoc (callId (frequency c)) st of None \<Rightarrow> None | Some d \<Rightarrow> offer d) of
           None \<Rightarrow>
             role_of (fst (joinFrequency env (c, st))) = Some Host \<and>
             writes (snd (joinFrequency env (c, st))) =
               writes st @ [SetDoc (callId (frequency c))
                 \<lparr>offer = Some \<lparr>sdp = createOffer env, dtype = ''offer'', hostId = uid,
                                 timestamp = serverTimestamp env\<rparr>,
                  answer = None\<rparr>]
         | Some data_offer \<Rightarrow>
             role_of (fst (joinFrequency env (c, st))) = Some Guest \<and>
             map_option currentRemoteDescription (pc (fst (joinFrequency env (c, st)))) =
               Some (Some \<lparr>sdp = sdp data_offer, dtype = dtype data_offer\<rparr>) \<and>
             writes (snd (joinFrequency env (c, st))) =
               writes st @ [UpdateDoc (callId (frequency c))
                 \<lparr>sdp = createAnswer env, dtype = ''answer'', guestId = uid\<rparr>]"
  using assms by (auto simp: join_defs split: option.splits prod.splits)

subsection \<open>Role selection\<close>

text \<open>
  C1. A join by a signed-in client whose microphone is granted reads the channel document
  once. When the document is absent or has no offer, the joiner is Host and the store
  receives exactly one write: the document with the \<open>offer\<close> field holding the joiner's
  session description, its identity and the store's timestamp. When the document carries an
  offer, the joiner is Guest, that offer is its remote description, and the store receives
  exactly one write: the \<open>answer\<close> field. (A join without identity or without microphone
  ends before role selection.)
\<close>

theorem join_role:
  assumes "user c = Some uid" and "getUserMedia env = Some ts"
  shows "case (case getDoc (callId (frequency c)) st of None \<Rightarrow> None | Some d \<Rightarrow> offer d) of
           None \<Rightarrow>
             role_of (fst (joinFrequency env (c, st))) = Some Host \<and>
             writes (snd (joinFrequency env (c, st))) =
               writes st @ [SetDoc (callId (frequency c))
                 \<lparr>offer = Some \<lparr>sdp = createOffer env, dtype = ''offer'', hostId = uid,
                                 timestamp = serverTimestamp env\<rparr>,
                  answer = None\<rparr>]
         | Some data_offer \<Rightarrow>
             role_of (fst (joinFrequency env (c, st))) = Some Guest \<and>
             map_option currentRemoteDescription (pc (fst (joinFrequency env (c, st)))) =
               Some (Some \<lparr>sdp = sdp data_offer, dtype = dtype data_offer\<rparr>) \<and>
             writes (snd (joinFrequency env (c, st))) =
               writes st @ [UpdateDoc (callId (frequency c))
                 \<lparr>sdp = createAnswer env, dtype = ''answer'', guestId = uid\<rparr>]"
  using assms by (rule join_role_cases)

theorem join_role_witness:
  "role_of (fst hosting) = Some Host \<and>
   writes (snd hosting) =
     [SetDoc ''freq_105_5''
        \<lparr>offer = Some \<lparr>sdp = ''v=0 host'', dtype = ''offer'', hostId = ''alice'',
                        timestamp = 1700000000\<rparr>, answer = None\<rparr>] \<and>
   role_of (fst answering) = Some Guest \<and>
   map_option currentRemoteDescription (pc (fst answering)) =
     Some (Some \<lparr>sdp = ''v=0 host'', dtype = ''offer''\<rparr>) \<and>
   writes (snd answering) =
     writes (snd hosting) @
     [UpdateDoc ''freq_105_5'' \<lparr>sdp = ''v=0 guest'', dtype = ''answer'', guestId = ''bob''\<rparr>]"
proof -
  have host: "role_of (fst hosting) = Some Host \<and>
      writes (snd hosting) =
        writes empty_store @ [SetDoc ''freq_105_5''
          \<lparr>offer = Some \<lparr>sdp = ''v=0 host'', dtype = ''offer'', hostId = ''alice'',
                          timestamp = 1700000000\<rparr>, answer = None\<rparr>]"
    using join_role[OF sample_fields(1) sample_fields(3), of empty_store]
    by (simp add: sample_fields getDoc_def empty_store_def hosting_def)
  have guest: "role_of (fst answering) = Some Guest \<and>
      map_option currentRemoteDescription (pc (fst answering)) =
        Some (Some \<lparr>sdp = ''v=0 host'', dtype = ''offer''\<rparr>) \<and>
      writes (snd answering) =
        writes (snd hosting) @
        [UpdateDoc ''freq_105_5'' \<lparr>sdp = ''v=0 guest'', dtype = ''answer'', guestId = ''bob''\<rparr>]"
  proof -
    have d: "getDoc ''freq_105_5'' (snd hosting) =
        Some \<lparr>offer = Some \<lparr>sdp = ''v=0 host'', dtype = ''offer'', hostId = ''alice'',
                             timestamp = 1700000000\<rparr>, answer = None\<rparr>"
      by (simp add: hosting_eq getDoc_def)
    show ?thesis
      using join_role[OF sample_fields(2) sample_fields(3), of "snd hosting"]
      by (simp add: sample_fields d answering_def)
  qed
  from host guest show ?thesis
    by (simp add: empty_store_def)
qed

subsection \<open>Joining twice\<close>

text \<open>
  C6, as the claim states it, fails: \<open>joinFrequency\<close> has no test for a session that is
  already established. Alice, hosting, joins again on the same frequency: the call is not a
  no-op, her role changes from Host to Guest, and the store receives a further write, an
  answer to her own offer.
\<close>

theorem second_join_not_noop:
  "joinFrequency mic hosting \<noteq> hosting \<and>
   role_of (fst hosting) = Some Host \<and>
   role_of (fst (joinFrequency mic hosting)) = Some Guest \<and>
   writes (snd (joinFrequency mic hosting)) =
     writes (snd hosting) @
     [UpdateDoc ''freq_105_5'' \<lparr>sdp = ''v=0 guest'', dtype = ''answer'', guestId = ''alice''\<rparr>]"
  unfolding hosting_eq
  by (simp add: join_defs sample_defs callId_initial)

text \<open>
  C6, amended. A second \<open>joinFrequency\<close> on the same frequency re-runs role selection
  against the document the first one left, which carries an offer: the caller takes the
  Guest role and the store receives exactly one more write, the \<open>answer\<close> field.
\<close>

theorem second_join_answers:
  assumes "user c = Some uid" and "getUserMedia env = Some ts" and "getUserMedia env' = Some ts'"
  shows "role_of (fst (joinFrequency env' (joinFrequency env (c, st)))) = Some Guest \<and>
         writes (snd (joinFrequency env' (joinFrequency env (c, st)))) =
           writes (snd (joinFrequency env (c, st))) @
             [UpdateDoc (callId (frequency c))
                \<lparr>sdp = createAnswer env', dtype = ''answer'', guestId = uid\<rparr>]"
proof -
  obtain c1 st1 where j: "joinFrequency env (c, st) = (c1, st1)"
    by (cases "joinFrequency env (c, st)")
  from j joinFrequency_frame[of env "(c, st)"] assms
  have u: "user c1 = Some uid" and f: "frequency c1 = frequency c"
    by simp_all
  from joinFrequency_leaves_offer[OF assms(1,2), of st] j f
  obtain d data_offer where d: "getDoc (callId (frequency c1)) st1 = Some d" "offer d = Some data_offer"
    by auto
  from join_role_cases[OF u assms(3), of st1] d f j
  show ?thesis by simp
qed

theorem second_join_answers_witness:
  "role_of (fst (joinFrequency mic hosting)) = Some Guest \<and>
   writes (snd (joinFrequency mic hosting)) =
     writes (snd hosting) @
     [UpdateDoc ''freq_105_5'' \<lparr>sdp = ''v=0 guest'', dtype = ''answer'', guestId = ''alice''\<rparr>]"
  using second_join_answers[OF sample_fields(1) sample_fields(3) sample_fields(3), of empty_store]
  by (simp add: sample_fields hosting_def)

subsection \<open>The remote description is set once\<close>

lemma onAnswerSnapshot_ignored:
  "pc c = Some p \<Longrightarrow> currentRemoteDescription p = Some r \<Longrightarrow> onAnswerSnapshot d c = Inr c"
  by (simp add: onAnswerSnapshot_def split: option.splits)

lemma answer_snapshots_ignored:
  "pc c = Some p \<Longrightarrow> currentRemoteDescription p = Some r \<Longrightarrow> answer_snapshots c ds = c"
  unfolding answer_snapshots_def
  by (induction ds) (simp_all add: deliver_def onAnswerSnapshot_ignored)

lemma answer_snapshots_Cons:
  "answer_snapshots c (d # ds) = answer_snapshots (deliver (onAnswerSnapshot d) c) ds"
  by (simp add: answer_snapshots_def)

lemma answer_snapshots_first:
  "pc c = Some p \<Longrightarrow> currentRemoteDescription p = None \<Longrightarrow>
   map_option currentRemoteDescription (pc (answer_snapshots c ds)) =
     Some (map_option (\<lambda>a. \<lparr>sdp = sdp a, dtype = dtype a\<rparr>) (first_answer ds))"
proof (induction ds)
  case Nil
  then show ?case by (simp add: answer_snapshots_def)
next
  case (Cons d ds)
  show ?case
  proof (cases "case d of None \<Rightarrow> None | Some doc \<Rightarrow> answer doc")
    case None
    with Cons.prems have "deliver (onAnswerSnapshot d) c = c"
      by (simp add: deliver_def onAnswerSnapshot_def)
    with None Cons show ?thesis
      by (simp add: answer_snapshots_Cons)
  next
    case (Some a)
    let ?p = "p\<lparr>currentRemoteDescription := Some \<lparr>sdp = sdp a, dtype = dtype a\<rparr>\<rparr>"
    let ?c = "setStatus ''CONNECTING...'' (c\<lparr>pc := Some ?p\<rparr>)"
    from Some Cons.prems have d: "deliver (onAnswerSnapshot d) c = ?c"
      by (simp add: deliver_def onAnswerSnapshot_def)
    have "answer_snapshots ?c ds = ?c"
      by (rule answer_snapshots_ignored[where p = ?p])
         (simp_all add: setStatus_def setConnectionStatus_def)
    with d Some show ?thesis
      by (simp add: answer_snapshots_Cons setStatus_def setConnectionStatus_def)
  qed
qed

text \<open>
  C2. While a session's peer connection is in place, the remote description that any run of
  change notifications leaves is the one already set, or else the first answer the run
  carries; and once a remote description is set, every further notification leaves the whole
  state as it is, whatever answer it carries and however many there are.
\<close>

theorem remote_description_set_once:
  assumes "pc c = Some p"
  shows "(currentRemoteDescription p \<noteq> None \<longrightarrow> answer_snapshots c ds = c) \<and>
         map_option currentRemoteDescription (pc (answer_snapshots c ds)) =
           Some (case currentRemoteDescription p of
                   Some r \<Rightarrow> Some r
                 | None \<Rightarrow> map_option (\<lambda>a. \<lparr>sdp = sdp a, dtype = dtype a\<rparr>) (first_answer ds))"
proof (cases "currentRemoteDescription p")
  case None
  with assms answer_snapshots_first[of c p ds] show ?thesis by simp
next
  case (Some r)
  with assms answer_snapshots_ignored[of c p r ds] show ?thesis by simp
qed

theorem remote_description_set_once_witness:
  "map_option currentRemoteDescription
     (pc (answer_snapshots (fst hosting) [None, Some bob_answer, Some carol_answer, Some bob_answer])) =
     Some (Some \<lparr>sdp = ''v=0 guest'', dtype = ''answer''\<rparr>) \<and>
   answer_snapshots (fst answering) [Some carol_answer, Some bob_answer] = fst answering"
proof -
  have h: "pc (fst hosting) =
      Some \<lparr>onicecandidate = Some (''freq_105_5'', OfferCandidates),
            localDescription = Some \<lparr>sdp = ''v=0 host'', dtype = ''offer''\<rparr>,
            currentRemoteDescription = None, remoteCandidates = []\<rparr>"
    by (simp add: hosting_eq)
  have g: "pc (fst answering) =
      Some \<lparr>onicecandidate = Some (''freq_105_5'', AnswerCandidates),
            localDescription = Some \<lparr>sdp = ''v=0 guest'', dtype = ''answer''\<rparr>,
            currentRemoteDescription = Some \<lparr>sdp = ''v=0 host'', dtype = ''offer''\<rparr>,
            remoteCandidates = []\<rparr>"
    by (simp add: answering_eq)
  show ?thesis
    using remote_description_set_once[OF h, of "[None, Some bob_answer, Some carol_answer, Some bob_answer]"]
      remote_description_set_once[OF g, of "[Some carol_answer, Some bob_answer]"]
    by (simp add: bob_answer_def carol_answer_def)
qed

subsection \<open>Teardown\<close>

lemma stop_stop: "stop (stop t) = stop t"
  by (simp add: stop_def)

lemma all_ended_map_stop: "all_ended (map stop ts)"
  by (simp add: all_ended_def list_all_iff stop_def)

lemma hangUp_tracks:
  "current_tracks (hangUp c) = map stop (current_tracks c)"
  "detached (hangUp c) = detached c"
  "isOn (hangUp c) = isOn c"
  "isTalking (hangUp c) = isTalking c"
  by (simp_all add: hangUp_defs current_tracks_def split: option.splits)

text \<open>
  C7. Teardown is idempotent. After \<open>hangUp\<close> the peer connection and the unsubscribe handle
  are cleared, every track of the stream has ended and the status is \<open>DISCONNECTED\<close>; a
  second \<open>hangUp\<close> right after the first leaves every field of the state, the registered
  listeners included, as the first left it. The second call finds the peer connection and
  the handle cleared, so it closes nothing and removes no listener; the tracks it stops
  again have already ended.
\<close>

theorem hangUp_idempotent:
  "hangUp (hangUp c) = hangUp c \<and>
   pc (hangUp c) = None \<and>
   unsubscribeRef (hangUp c) = None \<and>
   all_ended (current_tracks (hangUp c)) \<and>
   connectionStatus (hangUp c) = ''DISCONNECTED''"
proof -
  have "hangUp (hangUp c) = hangUp c"
    by (simp add: hangUp_defs stop_stop split: option.splits)
  moreover have "pc (hangUp c) = None" "unsubscribeRef (hangUp c) = None"
    "connectionStatus (hangUp c) = ''DISCONNECTED''"
    by (simp_all add: hangUp_defs split: option.splits)
  ultimately show ?thesis
    by (simp add: hangUp_tracks all_ended_map_stop)
qed

theorem hangUp_idempotent_witness:
  "hangUp (hangUp (fst hosting)) = hangUp (fst hosting) \<and>
   pc (fst hosting) \<noteq> None \<and>
   pc (hangUp (fst hosting)) = None \<and>
   localStream (hangUp (fst hosting)) = Some [\<lparr>enabled = False, readyState = Ended\<rparr>] \<and>
   connectionStatus (hangUp (fst hosting)) = ''DISCONNECTED''"
  using hangUp_idempotent[of "fst hosting"]
  by (simp add: hosting_eq hangUp_defs stop_def)

text \<open>
  C3. Teardown releases the one subscription whose handle \<open>joinFrequency\<close> stored: the
  Host's document listener. The candidate listener's handle is dropped when it is
  registered, so after Alice (Host) hangs up her listener on \<open>answerCandidates\<close> is still
  registered, and its callback then runs against the cleared \<open>pc.current\<close>; after Bob
  (Guest) hangs up, his listener on \<open>offerCandidates\<close> is still registered as well.
\<close>

theorem hangUp_keeps_candidates_listener:
  "listeners (hangUp (fst hosting)) = [(1, CandidatesListener ''freq_105_5'' AnswerCandidates)] \<and>
   step (hangUp (fst hosting), snd hosting) (CandidatesSnapshot 1 [''candidate:1'']) =
     (hangUp (fst hosting), snd hosting) \<and>
   onCandidatesSnapshot [''candidate:1''] (hangUp (fst hosting)) = Inl TypeError \<and>
   listeners (hangUp (fst answering)) = [(0, CandidatesListener ''freq_105_5'' OfferCandidates)] \<and>
   onCandidatesSnapshot [''candidate:1''] (hangUp (fst answering)) = Inl TypeError"
  by (simp add: hosting_eq answering_eq hangUp_def unsubscribe_def setConnectionStatus_def
      deliver_def Let_def)

subsection \<open>Resetting a channel\<close>

text \<open>
  C5, as the claim states it, fails: after deleting the document \<open>resetChannel\<close> calls
  \<open>hangUp\<close>. Alice, hosting, resets her channel: her peer connection, her stream's tracks,
  her listeners and her connection status all change.
\<close>

theorem resetChannel_closes_session:
  "pc (fst (resetChannel True hosting)) \<noteq> pc (fst hosting) \<and>
   localStream (fst (resetChannel True hosting)) \<noteq> localStream (fst hosting) \<and>
   listeners (fst (resetChannel True hosting)) \<noteq> listeners (fst hosting) \<and>
   connectionStatus (fst (resetChannel True hosting)) \<noteq> connectionStatus (fst hosting)"
  unfolding hosting_eq
  by (simp add: resetChannel_def hangUp_defs stop_def)

text \<open>
  C5, amended. When the deletion succeeds, \<open>resetChannel\<close> deletes the document of the
  channel derived from the frequency, leaves every other document alone, and tears the local
  session down as \<open>hangUp\<close> does: tracks stopped, peer connection and unsubscribe handle
  cleared, the stored listener removed, status \<open>DISCONNECTED\<close>. When the deletion is
  rejected, it changes nothing.
\<close>

theorem resetChannel_hangs_up:
  "resetChannel True (c, st) = (hangUp c, deleteDoc (callId (frequency c)) st) \<and>
   getDoc (callId (frequency c)) (snd (resetChannel True (c, st))) = None \<and>
   (\<forall>cid. cid \<noteq> callId (frequency c) \<longrightarrow>
      getDoc cid (snd (resetChannel True (c, st))) = getDoc cid st) \<and>
   pc (fst (resetChannel True (c, st))) = None \<and>
   localStream (fst (resetChannel True (c, st))) = map_option (map stop) (localStream c) \<and>
   unsubscribeRef (fst (resetChannel True (c, st))) = None \<and>
   listeners (fst (resetChannel True (c, st))) =
     filter (\<lambda>il. Some (fst il) \<noteq> unsubscribeRef c) (listeners c) \<and>
   connectionStatus (fst (resetChannel True (c, st))) = ''DISCONNECTED'' \<and>
   resetChannel False (c, st) = (c, st)"
  by (auto simp: resetChannel_def hangUp_defs deleteDoc_def getDoc_def split: option.splits)

theorem resetChannel_hangs_up_witness:
  "getDoc ''freq_105_5'' (snd hosting) \<noteq> None \<and>
   getDoc ''freq_105_5'' (snd (resetChannel True hosting)) = None \<and>
   getDoc ''freq_88_0'' (snd (resetChannel True hosting)) = getDoc ''freq_88_0'' (snd hosting) \<and>
   pc (fst (resetChannel True hosting)) = None \<and>
   localStream (fst (resetChannel True hosting)) = Some [\<lparr>enabled = False, readyState = Ended\<rparr>] \<and>
   listeners (fst (resetChannel True hosting)) =
     [(1, CandidatesListener ''freq_105_5'' AnswerCandidates)] \<and>
   connectionStatus (fst (resetChannel True hosting)) = ''DISCONNECTED''"
  using resetChannel_hangs_up[of "fst hosting" "snd hosting"]
  unfolding hosting_eq
  by (simp add: hangUp_defs getDoc_def callId_initial stop_def deleteDoc_def resetChannel_def)

subsection \<open>The connection status\<close>

lemma alice_hosts_eq: "run (initial, empty_store) alice_hosts = hosting"
  unfolding hosting_eq
  by (simp add: run_def alice_hosts_def alice_powers_on_def replicate_5 togglePower_def
      joinFrequency_call_def join_defs sample_defs callId_initial)

text \<open>
  C4. The state is declared with the comment \<open>DISCONNECTED, CONNECTING, CONNECTED\<close>, the
  three values of the claim. \<open>joinFrequency\<close> passes display strings to \<open>setStatus\<close>, which
  stores them in that state: when Alice has signed in and switched the power on, the status
  the control surface reads is \<open>TUNING...\<close>; when her call has run through its awaits it is
  \<open>WAITING FOR PEER...\<close>; and Bob's, who joined her channel, is \<open>CONNECTING...\<close>. None of
  them is one of the three values.
\<close>

theorem connectionStatus_outside_three:
  "connectionStatus (fst (run (initial, empty_store) alice_powers_on)) = ''TUNING...'' \<and>
   connectionStatus (fst (run (initial, empty_store) alice_hosts)) = ''WAITING FOR PEER...'' \<and>
   connectionStatus (fst answering) = ''CONNECTING...'' \<and>
   connectionStatus (fst (run (initial, empty_store) alice_powers_on))
     \<notin> {''DISCONNECTED'', ''CONNECTING'', ''CONNECTED''} \<and>
   connectionStatus (fst (run (initial, empty_store) alice_hosts))
     \<notin> {''DISCONNECTED'', ''CONNECTING'', ''CONNECTED''} \<and>
   connectionStatus (fst answering) \<notin> {''DISCONNECTED'', ''CONNECTING'', ''CONNECTED''}"
proof -
  have "connectionStatus (fst (run (initial, empty_store) alice_powers_on)) = ''TUNING...''"
    by (simp add: run_def alice_powers_on_def togglePower_def joinFrequency_call_def
        setStatus_def setConnectionStatus_def initial_def)
  moreover have "connectionStatus (fst (run (initial, empty_store) alice_hosts)) = ''WAITING FOR PEER...''"
    unfolding alice_hosts_eq hosting_eq by simp
  moreover have "connectionStatus (fst answering) = ''CONNECTING...''"
    unfolding answering_eq by simp
  ultimately show ?thesis by simp
qed

subsection \<open>Push to talk\<close>

lemma button_enabled_eq:
  "run (initial, empty_store) button_enabled =
     (\<lparr>user = Some ''alice'', isOn = True, frequency = Num (211 / 2), isTalking = False,
       connectionStatus = ''CONNECTED'',
       pc = Some \<lparr>onicecandidate = Some (''freq_105_5'', OfferCandidates),
                   localDescription = Some \<lparr>sdp = ''v=0 host'', dtype = ''offer''\<rparr>,
                   currentRemoteDescription = Some \<lparr>sdp = ''v=0 guest'', dtype = ''answer''\<rparr>,
                   remoteCandidates = []\<rparr>,
       localStream = Some [\<lparr>enabled = False, readyState = Live\<rparr>], detached = [],
       unsubscribeRef = Some 0,
       listeners = [(0, DocListener ''freq_105_5''),
                    (1, CandidatesListener ''freq_105_5'' AnswerCandidates)],
       listener_seq = 2,
       pending = [AwaitGetUserMedia ''alice'' (Num (211 / 2))]\<rparr>,
      snd hosting)"
  unfolding hosting_eq
  by (simp add: run_def button_enabled_def replicate_5 togglePower_def
      joinFrequency_call_def join_defs hangUp_def unsubscribe_def sample_defs callId_initial
      deliver_def onAnswerSnapshot_def bob_answer_def onconnectionstatechange_def)

text \<open>
  C10. The code states the rule in its comments, \<open>Mute initially (PTT logic)\<close> in
  \<open>setupAudio\<close> and \<open>PTT Logic: Enable mic track only when button held\<close> above \<open>startTalk\<close>,
  and breaks it when a call of \<open>joinFrequency\<close> resumes from \<open>await setupAudio()\<close> while the
  button is down. In the execution \<open>press_and_release\<close> the button is enabled when Alice
  presses it (the power is on and the status is \<open>CONNECTED\<close>, set by the connection that
  \<open>pc.current\<close> holds), no track is enabled before, and \<open>startTalk\<close> enables the track of
  the stream in \<open>localStream.current\<close>. The resumed call puts a new stream there
  and does not stop the old one, so \<open>stopTalk\<close> disables the new track only. With the button
  released and \<open>isTalking\<close> false, the old track is live and enabled; it still is when she
  switches the power off, since \<open>hangUp\<close> stops the tracks of the new stream.
\<close>

theorem push_to_talk_leaves_track_enabled:
  "isOn (fst (run (initial, empty_store) button_enabled)) \<and>
   connectionStatus (fst (run (initial, empty_store) button_enabled)) = ''CONNECTED'' \<and>
   pc (fst (run (initial, empty_store) button_enabled)) \<noteq> None \<and>
   \<not> live_audio (fst (run (initial, empty_store) button_enabled)) \<and>
   \<not> ptt_held press_and_release \<and>
   \<not> isTalking (fst (run (initial, empty_store) press_and_release)) \<and>
   localStream (fst (run (initial, empty_store) press_and_release)) =
     Some [\<lparr>enabled = False, readyState = Live\<rparr>] \<and>
   detached (fst (run (initial, empty_store) press_and_release)) =
     [\<lparr>enabled = True, readyState = Live\<rparr>] \<and>
   live_audio (fst (run (initial, empty_store) press_and_release)) \<and>
   \<not> isOn (fst (run (initial, empty_store) (press_and_release @ [TogglePower]))) \<and>
   live_audio (fst (run (initial, empty_store) (press_and_release @ [TogglePower])))"
proof -
  have held: "\<not> ptt_held press_and_release"
    by (simp add: ptt_held_def press_and_release_def button_enabled_def ptt_event_def)
  show ?thesis
    using held
    unfolding press_and_release_def append_assoc run_append button_enabled_eq
    by (simp add: run_def live_audio_def current_tracks_def startTalk_def stopTalk_def
        togglePower_def hangUp_def unsubscribe_def setConnectionStatus_def stop_def
        setupAudio_def sample_fields Let_def)
qed

end
